theory Spec2Isabelle
  imports Main
begin

section \<open>Text\<close>

text \<open>
  A Python \<open>str\<close> is a sequence of Unicode code points, and \<open>bytes\<close> a sequence of
  numbers below 256. Both are lists of naturals here. Literals of the source are written
  with \<open>ascii\<close> for their ASCII stretches and with the code point itself elsewhere
  (\<open>0xF3\<close> is the letter o with an acute accent, \<open>0x0A\<close> the line feed).
\<close>

type_synonym codepoint = nat
type_synonym pystr = "codepoint list"
type_synonym byte = nat

datatype error = UnicodeEncodeError | KeyError pystr | SqliteError | OSError

definition ascii :: "string \<Rightarrow> pystr" where
  "ascii s = map of_char s"

definition nl :: pystr where
  "nl = [0x0A]"

definition is_surrogate :: "codepoint \<Rightarrow> bool" where
  "is_surrogate c = (0xD800 \<le> c \<and> c \<le> 0xDFFF)"

definition encodable :: "pystr \<Rightarrow> bool" where
  "encodable s = list_all (\<lambda>c. c < 0x110000 \<and> \<not> is_surrogate c) s"

subsection \<open>UTF-8, as \<open>str.encode('utf-8', 'strict')\<close> produces it\<close>

definition utf8_char :: "codepoint \<Rightarrow> error + byte list" where
  "utf8_char c =
     (if c < 0x80 then Inr [c]
      else if c < 0x800 then Inr [0xC0 + c div 64, 0x80 + c mod 64]
      else if is_surrogate c then Inl UnicodeEncodeError
      else if c < 0x10000 then
        Inr [0xE0 + c div 4096, 0x80 + (c div 64) mod 64, 0x80 + c mod 64]
      else if c < 0x110000 then
        Inr [0xF0 + c div 262144, 0x80 + (c div 4096) mod 64,
             0x80 + (c div 64) mod 64, 0x80 + c mod 64]
      else Inl UnicodeEncodeError)"

fun utf8_encode :: "pystr \<Rightarrow> error + byte list" where
  "utf8_encode [] = Inr []"
| "utf8_encode (c # cs) =
     (case utf8_char c of
        Inl e \<Rightarrow> Inl e
      | Inr bs \<Rightarrow> (case utf8_encode cs of Inl e \<Rightarrow> Inl e | Inr rest \<Rightarrow> Inr (bs @ rest)))"

subsection \<open>\<open>urllib.parse.quote\<close> with its default \<open>safe='/'\<close>\<close>

text \<open>
  The unreserved bytes are the ASCII letters and digits and \<open>_ . - ~\<close>; the default
  \<open>safe\<close> argument adds \<open>/\<close>. Every other byte becomes \<open>%XX\<close> with upper-case
  hexadecimal digits.
\<close>

definition always_safe :: "byte \<Rightarrow> bool" where
  "always_safe b =
     ((0x41 \<le> b \<and> b \<le> 0x5A) \<or> (0x61 \<le> b \<and> b \<le> 0x7A) \<or> (0x30 \<le> b \<and> b \<le> 0x39)
      \<or> b = 0x5F \<or> b = 0x2E \<or> b = 0x2D \<or> b = 0x7E)"

definition is_safe :: "byte \<Rightarrow> bool" where
  "is_safe b = (always_safe b \<or> b = 0x2F)"

definition hex_digit :: "nat \<Rightarrow> codepoint" where
  "hex_digit d = (if d < 10 then 0x30 + d else 0x41 + (d - 10))"

definition quote_byte :: "byte \<Rightarrow> pystr" where
  "quote_byte b = (if is_safe b then [b] else [0x25, hex_digit (b div 16), hex_digit (b mod 16)])"

definition quote_from_bytes :: "byte list \<Rightarrow> pystr" where
  "quote_from_bytes bs = concat (map quote_byte bs)"

definition quote :: "pystr \<Rightarrow> error + pystr" where
  "quote s = (case utf8_encode s of Inl e \<Rightarrow> Inl e | Inr bs \<Rightarrow> Inr (quote_from_bytes bs))"

subsection \<open>Percent-decoding\<close>

text \<open>
  The decoder is not part of the program: it is what a reader of the share link applies.
  \<open>unquote_to_bytes\<close> replaces each \<open>%\<close> followed by two hexadecimal digits (either
  case) by the byte they denote and keeps everything else; \<open>utf8_decode\<close> reads the
  bytes back as code points and has no result on bytes that are not well-formed UTF-8.
\<close>

definition hex_value :: "codepoint \<Rightarrow> nat option" where
  "hex_value c =
     (if 0x30 \<le> c \<and> c \<le> 0x39 then Some (c - 0x30)
      else if 0x41 \<le> c \<and> c \<le> 0x46 then Some (c - 0x41 + 10)
      else if 0x61 \<le> c \<and> c \<le> 0x66 then Some (c - 0x61 + 10)
      else None)"

fun unquote_to_bytes :: "byte list \<Rightarrow> byte list" where
  "unquote_to_bytes [] = []"
| "unquote_to_bytes [b] = [b]"
| "unquote_to_bytes [b, b'] = [b, b']"
| "unquote_to_bytes (b # h # l # rest) =
     (if b = 0x25 then
        (case (hex_value h, hex_value l) of
           (Some x, Some y) \<Rightarrow> (16 * x + y) # unquote_to_bytes rest
         | _ \<Rightarrow> b # unquote_to_bytes (h # l # rest))
      else b # unquote_to_bytes (h # l # rest))"

definition is_cont :: "byte \<Rightarrow> bool" where
  "is_cont b = (0x80 \<le> b \<and> b \<le> 0xBF)"

fun utf8_decode :: "byte list \<Rightarrow> pystr option" where
  "utf8_decode [] = Some []"
| "utf8_decode (b # bs) =
     (if b < 0x80 then map_option ((#) b) (utf8_decode bs)
      else if 0xC2 \<le> b \<and> b \<le> 0xDF then
        (case bs of
           b1 # r \<Rightarrow>
             if is_cont b1
             then map_option ((#) ((b - 0xC0) * 64 + (b1 - 0x80))) (utf8_decode r)
             else None
         | _ \<Rightarrow> None)
      else if 0xE0 \<le> b \<and> b \<le> 0xEF then
        (case bs of
           b1 # b2 # r \<Rightarrow>
             (let c = (b - 0xE0) * 4096 + (b1 - 0x80) * 64 + (b2 - 0x80)
              in if is_cont b1 \<and> is_cont b2 \<and> 0x800 \<le> c \<and> \<not> is_surrogate c
                 then map_option ((#) c) (utf8_decode r)
                 else None)
         | _ \<Rightarrow> None)
      else if 0xF0 \<le> b \<and> b \<le> 0xF4 then
        (case bs of
           b1 # b2 # b3 # r \<Rightarrow>
             (let c = (b - 0xF0) * 262144 + (b1 - 0x80) * 4096 + (b2 - 0x80) * 64 + (b3 - 0x80)
              in if is_cont b1 \<and> is_cont b2 \<and> is_cont b3 \<and> 0x10000 \<le> c \<and> c < 0x110000
                 then map_option ((#) c) (utf8_decode r)
                 else None)
         | _ \<Rightarrow> None)
      else None)"

definition percent_decode :: "pystr \<Rightarrow> pystr option" where
  "percent_decode s =
     (case utf8_encode s of
        Inl e \<Rightarrow> None
      | Inr bs \<Rightarrow> utf8_decode (unquote_to_bytes bs))"

section \<open>Content formatter\<close>

definition o_acute :: codepoint where
  "o_acute = 0xF3"

definition qr_text :: "pystr \<Rightarrow> pystr \<Rightarrow> pystr \<Rightarrow> pystr" where
  "qr_text code description personalization =
     ascii ''PROCHAP'' @ nl
     @ ascii ''C'' @ [o_acute] @ ascii ''digo: '' @ code @ nl
     @ ascii ''Descripci'' @ [o_acute] @ ascii ''n: '' @ description @ nl
     @ ascii ''Personalizaci'' @ [o_acute] @ ascii ''n: '' @ personalization"

definition create_qr_content :: "pystr \<Rightarrow> pystr \<Rightarrow> pystr \<Rightarrow> error + pystr" where
  "create_qr_content code description personalization =
     (let qr_content = qr_text code description personalization
      in case quote qr_content of
           Inl e \<Rightarrow> Inl e
         | Inr whatsapp_message \<Rightarrow>
             (let whatsapp_url = ascii ''https://wa.me/?text='' @ whatsapp_message
              in Inr (qr_content @ nl @ ascii ''Compartir por WhatsApp: '' @ whatsapp_url)))"


section \<open>Record store\<close>

text \<open>
  The table \<open>qr_codes\<close> of the SQLite file. \<open>None\<close> is a file that has no such table
  yet. The rows are kept in rowid order, which is the order \<open>SELECT *\<close> scans them in,
  and \<open>seq\<close> is the \<open>AUTOINCREMENT\<close> counter of the table: the largest identifier it has
  ever given out, which \<open>DELETE\<close> does not reset. A statement fails with \<open>sqlite3.Error\<close>
  (\<open>SqliteError\<close>) when the engine cannot run it; the flag \<open>fault\<close> of each operation
  says whether the environment makes it fail.
\<close>

record qr_code =
  qr_id :: nat
  contenido :: pystr
  fecha_creacion :: pystr
  descripcion :: pystr
  personalizacion :: pystr

record table =
  rows :: "qr_code list"
  seq :: nat

type_synonym database = "table option"

definition max_rowid :: nat where
  "max_rowid = 9223372036854775807"

definition sql_create_table :: "bool \<Rightarrow> database \<Rightarrow> error + database" where
  "sql_create_table fault db =
     (if fault then Inl SqliteError
      else case db of
             None \<Rightarrow> Inr (Some \<lparr>rows = [], seq = 0\<rparr>)
           | Some t \<Rightarrow> Inr (Some t))"

definition sql_insert ::
  "bool \<Rightarrow> pystr \<Rightarrow> pystr \<Rightarrow> pystr \<Rightarrow> pystr \<Rightarrow> database \<Rightarrow> error + database" where
  "sql_insert fault c f d p db =
     (if fault then Inl SqliteError
      else case db of
             None \<Rightarrow> Inl SqliteError
           | Some t \<Rightarrow>
               if max_rowid \<le> seq t then Inl SqliteError
               else Inr (Some \<lparr>rows = rows t @
                                   [\<lparr>qr_id = Suc (seq t), contenido = c, fecha_creacion = f,
                                     descripcion = d, personalizacion = p\<rparr>],
                                seq = Suc (seq t)\<rparr>))"

definition sql_select_all :: "bool \<Rightarrow> database \<Rightarrow> error + qr_code list" where
  "sql_select_all fault db =
     (if fault then Inl SqliteError
      else case db of None \<Rightarrow> Inl SqliteError | Some t \<Rightarrow> Inr (rows t))"

definition sql_delete_all :: "bool \<Rightarrow> database \<Rightarrow> error + database" where
  "sql_delete_all fault db =
     (if fault then Inl SqliteError
      else case db of None \<Rightarrow> Inl SqliteError | Some t \<Rightarrow> Inr (Some (t\<lparr>rows := []\<rparr>)))"

text \<open>
  The four operations of \<open>DatabaseManager\<close>. Each returns \<open>Inl e\<close> when the exception
  \<open>e\<close> leaves the method, and \<open>Inr\<close> of its return value (and the database after it)
  otherwise. \<open>fecha\<close> is the text \<open>datetime.now().strftime(...)\<close> gives at the call.
\<close>

definition initialize_database :: "bool \<Rightarrow> database \<Rightarrow> error + database" where
  "initialize_database fault db =
     (case sql_create_table fault db of
        Inl e \<Rightarrow> Inl e
      | Inr db' \<Rightarrow> Inr db')"

definition create_qr_code ::
  "bool \<Rightarrow> pystr \<Rightarrow> pystr \<Rightarrow> pystr \<Rightarrow> pystr \<Rightarrow> database \<Rightarrow> error + (bool \<times> database)" where
  "create_qr_code fault fecha c d p db =
     (case sql_insert fault c fecha d p db of
        Inl SqliteError \<Rightarrow> Inr (False, db)
      | Inl e \<Rightarrow> Inl e
      | Inr db' \<Rightarrow> Inr (True, db'))"

definition get_all_qr_codes :: "bool \<Rightarrow> database \<Rightarrow> error + qr_code list" where
  "get_all_qr_codes fault db =
     (case sql_select_all fault db of
        Inl SqliteError \<Rightarrow> Inr []
      | Inl e \<Rightarrow> Inl e
      | Inr rs \<Rightarrow> Inr rs)"

definition delete_all_qr_codes :: "bool \<Rightarrow> database \<Rightarrow> error + (bool \<times> database)" where
  "delete_all_qr_codes fault db =
     (case sql_delete_all fault db of
        Inl SqliteError \<Rightarrow> Inr (False, db)
      | Inl e \<Rightarrow> Inl e
      | Inr db' \<Rightarrow> Inr (True, db'))"

text \<open>
  Histories of the store: any sequence of operations, each with the fault flag of its
  call, run from a file without the table. \<open>assigned\<close> collects the identifiers the
  successful inserts of a history have given out, deleted records included.
\<close>

datatype store_op =
    Initialize bool
  | Create bool pystr pystr pystr pystr
  | DeleteAll bool

fun apply_store_op :: "store_op \<Rightarrow> database \<Rightarrow> database" where
  "apply_store_op (Initialize fault) db =
     (case initialize_database fault db of Inr db' \<Rightarrow> db' | Inl e \<Rightarrow> db)"
| "apply_store_op (Create fault fecha c d p) db =
     (case create_qr_code fault fecha c d p db of Inr (ok, db') \<Rightarrow> db' | Inl e \<Rightarrow> db)"
| "apply_store_op (DeleteAll fault) db =
     (case delete_all_qr_codes fault db of Inr (ok, db') \<Rightarrow> db' | Inl e \<Rightarrow> db)"

fun run_store :: "store_op list \<Rightarrow> database \<Rightarrow> database" where
  "run_store [] db = db"
| "run_store (x # xs) db = run_store xs (apply_store_op x db)"

fun assigned_by :: "store_op \<Rightarrow> database \<Rightarrow> nat list" where
  "assigned_by (Create fault fecha c d p) db =
     (case create_qr_code fault fecha c d p db of
        Inr (True, Some t) \<Rightarrow> [qr_id (last (rows t))]
      | _ \<Rightarrow> [])"
| "assigned_by x db = []"

fun assigned :: "store_op list \<Rightarrow> database \<Rightarrow> nat list" where
  "assigned [] db = []"
| "assigned (x # xs) db = assigned_by x db @ assigned xs (apply_store_op x db)"

section \<open>Application\<close>

subsection \<open>Helpers of the runtime\<close>

text \<open>
  \<open>str.strip()\<close> removes the characters for which \<open>str.isspace\<close> holds from both ends.
\<close>

definition is_space :: "codepoint \<Rightarrow> bool" where
  "is_space c =
     ((0x09 \<le> c \<and> c \<le> 0x0D) \<or> (0x1C \<le> c \<and> c \<le> 0x20) \<or> c = 0x85 \<or> c = 0xA0
      \<or> c = 0x1680 \<or> (0x2000 \<le> c \<and> c \<le> 0x200A) \<or> c = 0x2028 \<or> c = 0x2029
      \<or> c = 0x202F \<or> c = 0x205F \<or> c = 0x3000)"

definition strip :: "pystr \<Rightarrow> pystr" where
  "strip s = rev (dropWhile is_space (rev (dropWhile is_space s)))"

fun str_nat :: "nat \<Rightarrow> pystr" where
  "str_nat n = (if n < 10 then [0x30 + n] else str_nat (n div 10) @ [0x30 + n mod 10])"

subsection \<open>Environment, rasters, documents\<close>

text \<open>
  What the program does not decide is a parameter: whether the database call made for
  item \<open>k\<close> of an operation fails, the creation time written then, whether the QR library
  fails on a text, whether the PDF library fails when it places the raster or the caption
  of record \<open>i\<close> or writes the file, the path the user chooses (empty when the dialog is
  cancelled) and the text \<open>str(e)\<close> of an exception.
\<close>

record env =
  sqlite_fault :: "nat \<Rightarrow> bool"
  clock :: "nat \<Rightarrow> pystr"
  qr_fault :: "pystr \<Rightarrow> nat \<Rightarrow> bool"
  image_fault :: "nat \<Rightarrow> bool"
  cell_fault :: "nat \<Rightarrow> bool"
  output_fault :: bool
  save_path :: pystr
  exc_text :: "error \<Rightarrow> pystr"

datatype image = Image pystr nat

datatype pdf_item =
    PdfImage image nat nat nat nat
  | PdfCell nat nat pystr

type_synonym pdf = "pdf_item list list"

definition QR_IMAGE_SIZE :: nat where
  "QR_IMAGE_SIZE = 150"

definition generate_qr_image :: "env \<Rightarrow> pystr \<Rightarrow> nat \<Rightarrow> image option" where
  "generate_qr_image e text sz = (if qr_fault e text sz then None else Some (Image text sz))"

text \<open>
  A document is the list of its pages, the last one being the current page; a page is the
  list of what was placed on it. Placing something when no page is open raises.
\<close>

definition add_page :: "pdf \<Rightarrow> pdf" where
  "add_page doc = doc @ [[]]"

definition pdf_put :: "pdf_item \<Rightarrow> pdf \<Rightarrow> pdf option" where
  "pdf_put item doc = (if doc = [] then None else Some (butlast doc @ [last doc @ [item]]))"

definition pdf_image :: "env \<Rightarrow> nat \<Rightarrow> image \<Rightarrow> nat \<Rightarrow> nat \<Rightarrow> nat \<Rightarrow> nat \<Rightarrow> pdf \<Rightarrow> pdf option" where
  "pdf_image e i img x y w h doc =
     (if image_fault e i then None else pdf_put (PdfImage img x y w h) doc)"

definition multi_cell :: "env \<Rightarrow> nat \<Rightarrow> nat \<Rightarrow> nat \<Rightarrow> pystr \<Rightarrow> pdf \<Rightarrow> pdf option" where
  "multi_cell e i x y txt doc =
     (if cell_fault e i then None else pdf_put (PdfCell x y txt) doc)"

subsection \<open>State of the window\<close>

text \<open>
  The state holds the database, the three entry fields, the cards of the scrollable
  display, whether the progress bar is shown, and a trace: the dialogs shown, the progress
  updates, the files written, and the calls made to the record store and to the QR
  renderer, in the order they happen.
\<close>

datatype event =
    Insert pystr pystr pystr
  | Render pystr nat
  | ShowError pystr pystr
  | ShowInfo pystr pystr
  | ShowWarning pystr pystr
  | Progress nat nat
  | WriteFile pystr pdf

record app =
  store :: database
  code_entry :: pystr
  description_entry :: pystr
  personalization_entry :: pystr
  qr_display :: "(image \<times> pystr) list"
  progress_shown :: bool
  trace :: "event list"

definition emit :: "event \<Rightarrow> app \<Rightarrow> app" where
  "emit ev st = st\<lparr>trace := trace st @ [ev]\<rparr>"

definition db_create :: "env \<Rightarrow> nat \<Rightarrow> pystr \<Rightarrow> pystr \<Rightarrow> pystr \<Rightarrow> app \<Rightarrow> (error + bool) \<times> app" where
  "db_create e k c d p st =
     (let st1 = emit (Insert c d p) st
      in case create_qr_code (sqlite_fault e k) (clock e k) c d p (store st) of
           Inl err \<Rightarrow> (Inl err, st1)
         | Inr (ok, db') \<Rightarrow> (Inr ok, st1\<lparr>store := db'\<rparr>))"

definition render :: "env \<Rightarrow> pystr \<Rightarrow> nat \<Rightarrow> app \<Rightarrow> image option \<times> app" where
  "render e text sz st = (generate_qr_image e text sz, emit (Render text sz) st)"

definition show_progress :: "bool \<Rightarrow> app \<Rightarrow> app" where
  "show_progress shown st = st\<lparr>progress_shown := shown\<rparr>"

definition update_progress :: "nat \<Rightarrow> nat \<Rightarrow> app \<Rightarrow> app" where
  "update_progress v max_value st = emit (Progress v max_value) st"

definition show_qr_image :: "image \<Rightarrow> pystr \<Rightarrow> app \<Rightarrow> app" where
  "show_qr_image qr_image description st =
     st\<lparr>qr_display := qr_display st @ [(qr_image, description)]\<rparr>"

definition clear_entries :: "app \<Rightarrow> app" where
  "clear_entries st = st\<lparr>code_entry := [], description_entry := [], personalization_entry := []\<rparr>"


subsection \<open>Manual entry\<close>

definition a_acute :: codepoint where
  "a_acute = 0xE1"

definition i_acute :: codepoint where
  "i_acute = 0xED"

definition E_acute :: codepoint where
  "E_acute = 0xC9"

definition msg_missing :: pystr where
  "msg_missing =
     ascii ''Por favor ingrese un c'' @ [o_acute] @ ascii ''digo y una descripci''
     @ [o_acute] @ ascii ''n.''"

definition generate_and_save_qr :: "env \<Rightarrow> app \<Rightarrow> app" where
  "generate_and_save_qr e st =
     (let code = strip (code_entry st);
          description = strip (description_entry st);
          personalization = strip (personalization_entry st)
      in if code = [] \<or> description = [] then emit (ShowError (ascii ''Error'') msg_missing) st
         else
           (case create_qr_content code description personalization of
              Inl err \<Rightarrow>
                emit (ShowError (ascii ''Error'') (ascii ''Error al generar QR: '' @ exc_text e err)) st
            | Inr qr_content \<Rightarrow>
                (case db_create e 0 qr_content description personalization st of
                   (Inl err, st1) \<Rightarrow>
                     emit (ShowError (ascii ''Error'')
                             (ascii ''Error al generar QR: '' @ exc_text e err)) st1
                 | (Inr True, st1) \<Rightarrow>
                     (case render e qr_content QR_IMAGE_SIZE st1 of
                        (Some qr_image, st2) \<Rightarrow>
                          clear_entries
                            (emit (ShowInfo ([E_acute] @ ascii ''xito'')
                                     (ascii ''QR generado y guardado correctamente.''))
                               (show_qr_image qr_image (code @ ascii '' - '' @ description) st2))
                      | (None, st2) \<Rightarrow>
                          emit (ShowError (ascii ''Error'')
                                  (ascii ''No se pudo generar la imagen QR.'')) st2)
                 | (Inr False, st1) \<Rightarrow>
                     emit (ShowError (ascii ''Error'')
                             (ascii ''No se pudo guardar el QR en la base de datos.'')) st1)))"

subsection \<open>Import\<close>

text \<open>
  A row of the data frame maps each column name to the text \<open>str\<close> gives for its cell;
  \<open>row[col]\<close> raises \<open>KeyError\<close> for a name that is not a column. The frame has the
  default index, so that \<open>index\<close> is the position of the row. \<open>personalizacion_col\<close> is
  the column the search over the header finds, \<open>None\<close> when the program adds its own
  empty column.
\<close>

type_synonym row = "(pystr \<times> pystr) list"

record counts =
  success_count :: nat
  error_count :: nat
  skipped_count :: nat

definition no_counts :: counts where
  "no_counts = \<lparr>success_count = 0, error_count = 0, skipped_count = 0\<rparr>"

definition row_get :: "row \<Rightarrow> pystr option \<Rightarrow> pystr" where
  "row_get r col =
     (case col of
        None \<Rightarrow> []
      | Some c \<Rightarrow> (case map_of r c of None \<Rightarrow> [] | Some v \<Rightarrow> v))"

definition count_error :: "nat \<Rightarrow> nat \<Rightarrow> app \<times> counts \<Rightarrow> app \<times> counts" where
  "count_error index total_rows acc =
     (case acc of (st, n) \<Rightarrow>
        (update_progress (index + 1) total_rows st, n\<lparr>error_count := error_count n + 1\<rparr>))"

definition importar_datos_row ::
  "env \<Rightarrow> pystr \<Rightarrow> pystr \<Rightarrow> pystr option \<Rightarrow> nat \<Rightarrow> nat \<Rightarrow> row \<Rightarrow> app \<times> counts \<Rightarrow> app \<times> counts" where
  "importar_datos_row e codigo_col descripcion_col personalizacion_col total_rows index r acc =
     (case acc of (st, n) \<Rightarrow>
       (case map_of r codigo_col of
          None \<Rightarrow> count_error index total_rows (st, n)
        | Some cv \<Rightarrow>
           (case map_of r descripcion_col of
              None \<Rightarrow> count_error index total_rows (st, n)
            | Some dv \<Rightarrow>
               (let code = strip cv;
                    description = strip dv;
                    personalization = strip (row_get r personalizacion_col)
                in if code = [] \<or> description = []
                   then (st, n\<lparr>skipped_count := skipped_count n + 1\<rparr>)
                   else
                     (case create_qr_content code description personalization of
                        Inl err \<Rightarrow> count_error index total_rows (st, n)
                      | Inr qr_content \<Rightarrow>
                          (case db_create e index qr_content description personalization st of
                             (Inl err, st1) \<Rightarrow> count_error index total_rows (st1, n)
                           | (Inr True, st1) \<Rightarrow>
                               (case render e qr_content QR_IMAGE_SIZE st1 of
                                  (Some qr_image, st2) \<Rightarrow>
                                    (update_progress (index + 1) total_rows
                                       (show_qr_image qr_image
                                          (code @ ascii '' - '' @ description) st2),
                                     n\<lparr>success_count := success_count n + 1\<rparr>)
                                | (None, st2) \<Rightarrow> count_error index total_rows (st2, n))
                           | (Inr False, st1) \<Rightarrow> count_error index total_rows (st1, n)))))))"

fun importar_datos_loop ::
  "env \<Rightarrow> pystr \<Rightarrow> pystr \<Rightarrow> pystr option \<Rightarrow> nat \<Rightarrow> nat \<Rightarrow> row list \<Rightarrow> app \<times> counts \<Rightarrow> app \<times> counts" where
  "importar_datos_loop e cc dc pc total_rows index [] acc = acc"
| "importar_datos_loop e cc dc pc total_rows index (r # rs) acc =
     importar_datos_loop e cc dc pc total_rows (Suc index) rs
       (importar_datos_row e cc dc pc total_rows index r acc)"

definition import_message :: "counts \<Rightarrow> pystr" where
  "import_message n =
     ascii ''Proceso completado.'' @ nl
     @ ascii ''QRs generados exitosamente: '' @ str_nat (success_count n) @ nl
     @ ascii ''Filas saltadas (vac'' @ [i_acute] @ ascii ''as o sin c'' @ [o_acute]
     @ ascii ''digo/descripci'' @ [o_acute] @ ascii ''n): '' @ str_nat (skipped_count n)
     @ (if error_count n > 0
        then nl @ ascii ''Errores encontrados: '' @ str_nat (error_count n) else [])"

definition importar_datos ::
  "env \<Rightarrow> error + row list \<Rightarrow> pystr \<Rightarrow> pystr \<Rightarrow> pystr option \<Rightarrow> app \<Rightarrow> app" where
  "importar_datos e df codigo_col descripcion_col personalizacion_col st =
     (case df of
        Inl err \<Rightarrow>
          emit (ShowError (ascii ''Error'')
                  (ascii ''Error al procesar el archivo Excel: '' @ exc_text e err))
            (show_progress False st)
      | Inr rs \<Rightarrow>
          (case importar_datos_loop e codigo_col descripcion_col personalizacion_col
                  (length rs) 0 rs (show_progress True st, no_counts) of
             (st1, n) \<Rightarrow>
               emit (ShowInfo (ascii ''Resultado de importaci'' @ [o_acute] @ ascii ''n'')
                       (import_message n))
                 (show_progress False st1)))"


subsection \<open>Export\<close>

definition caption :: "qr_code \<Rightarrow> pystr" where
  "caption r =
     ascii ''Descripci'' @ [o_acute] @ ascii ''n: '' @ descripcion r @ nl
     @ ascii ''Fecha: '' @ fecha_creacion r @ nl
     @ ascii ''Personalizaci'' @ [o_acute] @ ascii ''n: '' @ personalizacion r"

definition export_pdf_record ::
  "env \<Rightarrow> nat \<Rightarrow> nat \<Rightarrow> qr_code \<Rightarrow> app \<times> pdf \<Rightarrow> app \<times> pdf" where
  "export_pdf_record e total_qrs i r acc =
     (case acc of (st, doc) \<Rightarrow>
       (let doc1 = (if i > 0 \<and> i mod 3 = 0 then add_page doc else doc)
        in case render e (contenido r) 100 st of
             (None, st1) \<Rightarrow> (st1, doc1)
           | (Some qr_image, st1) \<Rightarrow>
               (let current_y = 10 + (i mod 3) * 90;
                    doc2 = (case pdf_image e i qr_image 10 current_y 40 40 doc1 of
                              None \<Rightarrow> doc1
                            | Some d \<Rightarrow>
                                (case multi_cell e i 60 current_y (caption r) d of
                                   None \<Rightarrow> d
                                 | Some d' \<Rightarrow> d'))
                in (update_progress (i + 1) total_qrs st1, doc2))))"

fun export_pdf_loop ::
  "env \<Rightarrow> nat \<Rightarrow> nat \<Rightarrow> qr_code list \<Rightarrow> app \<times> pdf \<Rightarrow> app \<times> pdf" where
  "export_pdf_loop e total_qrs i [] acc = acc"
| "export_pdf_loop e total_qrs i (r # rs) acc =
     export_pdf_loop e total_qrs (Suc i) rs (export_pdf_record e total_qrs i r acc)"

definition export_failed :: "env \<Rightarrow> error \<Rightarrow> app \<Rightarrow> app" where
  "export_failed e err st =
     emit (ShowError (ascii ''Error'') (ascii ''No se pudo exportar a PDF: '' @ exc_text e err))
       (show_progress False st)"

definition msg_nothing_to_export :: pystr where
  "msg_nothing_to_export =
     ascii ''No hay c'' @ [o_acute] @ ascii ''digos QR para exportar a PDF.''"

definition export_pdf :: "env \<Rightarrow> app \<Rightarrow> app" where
  "export_pdf e st =
     (case get_all_qr_codes (sqlite_fault e 0) (store st) of
        Inl err \<Rightarrow> export_failed e err st
      | Inr qr_data \<Rightarrow>
          if qr_data = [] then emit (ShowWarning (ascii ''Advertencia'') msg_nothing_to_export) st
          else if save_path e = [] then st
          else
            (case export_pdf_loop e (length qr_data) 0 qr_data
                    (show_progress True st, add_page []) of
               (st1, doc) \<Rightarrow>
                 if output_fault e then export_failed e OSError st1
                 else
                   emit (ShowInfo (ascii ''Exportaci'' @ [o_acute] @ ascii ''n completada'')
                           (ascii ''PDF guardado como '' @ save_path e))
                     (show_progress False (emit (WriteFile (save_path e) doc) st1))))"


section \<open>Notions used in the statements\<close>

text \<open>Lines joined by line feeds, as the template of the formatter writes them.\<close>

fun join_lines :: "pystr list \<Rightarrow> pystr" where
  "join_lines [] = []"
| "join_lines [l] = l"
| "join_lines (l # ls) = l @ nl @ join_lines ls"

text \<open>
  What every history of the store keeps true: no row has an identifier above the counter,
  and the rows are in ascending order of identifier.
\<close>

definition wf_db :: "database \<Rightarrow> bool" where
  "wf_db db =
     (case db of
        None \<Rightarrow> True
      | Some t \<Rightarrow>
          list_all (\<lambda>r. qr_id r \<le> seq t) (rows t) \<and> sorted_wrt (<) (map qr_id (rows t)))"

definition seq_of :: "database \<Rightarrow> nat" where
  "seq_of db = (case db of None \<Rightarrow> 0 | Some t \<Rightarrow> seq t)"

text \<open>
  Import: a row has its two mapped columns; a row has both required fields, non-empty after
  trimming; the calls to the store and to the renderer recorded in a trace; whether the
  store insert and the render of a row both succeed, from the database the row meets; and
  the state and counters after the first \<open>k\<close> rows of an import.
\<close>

definition has_columns :: "pystr \<Rightarrow> pystr \<Rightarrow> row \<Rightarrow> bool" where
  "has_columns cc dc r = (map_of r cc \<noteq> None \<and> map_of r dc \<noteq> None)"

definition has_required :: "pystr \<Rightarrow> pystr \<Rightarrow> row \<Rightarrow> bool" where
  "has_required cc dc r =
     (case map_of r cc of
        None \<Rightarrow> False
      | Some cv \<Rightarrow>
          (case map_of r dc of
             None \<Rightarrow> False
           | Some dv \<Rightarrow> strip cv \<noteq> [] \<and> strip dv \<noteq> []))"

fun is_attempt :: "event \<Rightarrow> bool" where
  "is_attempt (Insert c d p) = True"
| "is_attempt (Render t s) = True"
| "is_attempt ev = False"

definition attempts :: "app \<Rightarrow> event list" where
  "attempts st = filter is_attempt (trace st)"




text \<open>Sample inputs for the concrete checks.\<close>

definition blank_window :: app where
  "blank_window =
     \<lparr>store = Some \<lparr>rows = [], seq = 0\<rparr>, code_entry = ascii ''  '',
      description_entry = ascii ''Box'', personalization_entry = [],
      qr_display = [], progress_shown = False, trace = []\<rparr>"

definition quiet :: env where
  "quiet =
     \<lparr>sqlite_fault = (\<lambda>k. False), clock = (\<lambda>k. ascii ''2024-01-01 00:00:00''),
      qr_fault = (\<lambda>t s. False), image_fault = (\<lambda>i. False), cell_fault = (\<lambda>i. False),
      output_fault = False, save_path = ascii ''out.pdf'', exc_text = (\<lambda>err. [])\<rparr>"

definition sample_row :: "string \<Rightarrow> string \<Rightarrow> row" where
  "sample_row c d = [(ascii ''codigo'', ascii c), (ascii ''descripcion'', ascii d)]"



definition failing_store :: env where
  "failing_store = quiet\<lparr>sqlite_fault := (\<lambda>k. True)\<rparr>"

definition stocked_window :: app where
  "stocked_window =
     blank_window\<lparr>store := Some \<lparr>rows = [\<lparr>qr_id = 1, contenido = ascii ''c'',
                                            fecha_creacion = ascii ''t'', descripcion = ascii ''d'',
                                            personalizacion = []\<rparr>], seq = 1\<rparr>\<rparr>"


definition export_upto :: "env \<Rightarrow> qr_code list \<Rightarrow> app \<Rightarrow> nat \<Rightarrow> app \<times> pdf" where
  "export_upto e rs st k =
     export_pdf_loop e (length rs) 0 (take k rs) (show_progress True st, add_page [])"





section \<open>Properties of the content formatter\<close>

subsection \<open>Percent-encoding can be undone\<close>

lemma hex_value_digit: "d < 16 \<Longrightarrow> hex_value (hex_digit d) = Some d"
  by (auto simp: hex_value_def hex_digit_def)

lemma unquote_plain: "b \<noteq> 0x25 \<Longrightarrow> unquote_to_bytes (b # rest) = b # unquote_to_bytes rest"
  by (cases rest rule: unquote_to_bytes.cases) auto

lemma unquote_quote_byte:
  "b < 256 \<Longrightarrow> unquote_to_bytes (quote_byte b @ rest) = b # unquote_to_bytes rest"
proof (cases "is_safe b")
  case True
  then have "b \<noteq> 0x25" by (auto simp: is_safe_def always_safe_def)
  with True show ?thesis by (simp add: quote_byte_def unquote_plain)
next
  case False
  assume lt: "b < 256"
  then have d: "b div 16 < 16" "b mod 16 < 16" by auto
  have "16 * (b div 16) + b mod 16 = b" by simp
  with False d show ?thesis by (simp add: quote_byte_def hex_value_digit)
qed

lemma unquote_quote_from_bytes:
  "list_all (\<lambda>b. b < 256) bs \<Longrightarrow> unquote_to_bytes (quote_from_bytes bs) = bs"
  unfolding quote_from_bytes_def
  by (induction bs) (simp_all add: unquote_quote_byte)

lemma utf8_encode_ascii: "list_all (\<lambda>c. c < 0x80) s \<Longrightarrow> utf8_encode s = Inr s"
  by (induction s) (simp_all add: utf8_char_def)

lemma quote_byte_ascii: "b < 256 \<Longrightarrow> list_all (\<lambda>c. c < 0x80) (quote_byte b)"
  by (auto simp: quote_byte_def is_safe_def always_safe_def hex_digit_def)

lemma quote_from_bytes_ascii:
  "list_all (\<lambda>b. b < 256) bs \<Longrightarrow> list_all (\<lambda>c. c < 0x80) (quote_from_bytes bs)"
  unfolding quote_from_bytes_def
  by (induction bs) (simp_all add: quote_byte_ascii)

subsection \<open>UTF-8 can be undone\<close>

lemma split3: "(c::nat) div 4096 * 4096 + (c div 64) mod 64 * 64 + c mod 64 = c"
proof -
  define q where "q = c div 64"
  define r where "r = c mod 64"
  define q2 where "q2 = q div 64"
  define r2 where "r2 = q mod 64"
  have a: "c = q * 64 + r" by (simp add: q_def r_def)
  have b: "q = q2 * 64 + r2" by (simp add: q2_def r2_def)
  have d: "c div 4096 = q2"
    unfolding q2_def q_def by (simp add: div_mult2_eq[symmetric])
  have "q2 * 4096 + r2 * 64 + r = c" using a b by simp
  then show ?thesis unfolding d by (simp add: r2_def r_def q_def)
qed

lemma split4:
  "(c::nat) div 262144 * 262144 + (c div 4096) mod 64 * 4096 + (c div 64) mod 64 * 64
     + c mod 64 = c"
proof -
  define q where "q = c div 4096"
  have d: "c div 262144 = q div 64"
    unfolding q_def by (simp add: div_mult2_eq[symmetric])
  define q2 where "q2 = q div 64"
  define r2 where "r2 = q mod 64"
  have "q = q2 * 64 + r2" by (simp add: q2_def r2_def)
  then have "q2 * 262144 + r2 * 4096 = q * 4096" by simp
  then have "q div 64 * 262144 + q mod 64 * 4096 = q * 4096" by (simp add: q2_def r2_def)
  moreover have "q * 4096 + (c div 64) mod 64 * 64 + c mod 64 = c"
    unfolding q_def by (rule split3)
  ultimately show ?thesis unfolding d q_def by simp
qed

lemma utf8_char_bytes: "utf8_char c = Inr bs \<Longrightarrow> list_all (\<lambda>b. b < 256) bs"
  unfolding utf8_char_def
  by (auto split: if_splits simp: is_surrogate_def)

lemma utf8_decode_char:
  assumes "utf8_char c = Inr bs"
  shows "utf8_decode (bs @ rest) = map_option ((#) c) (utf8_decode rest)"
proof -
  consider (one) "c < 0x80" | (two) "0x80 \<le> c" "c < 0x800"
    | (three) "0x800 \<le> c" "c < 0x10000" "\<not> is_surrogate c"
    | (four) "0x10000 \<le> c" "c < 0x110000"
    using assms unfolding utf8_char_def by (auto split: if_splits)
  then show ?thesis
  proof cases
    case one
    with assms show ?thesis by (auto simp: utf8_char_def)
  next
    case two
    then have bs: "bs = [0xC0 + c div 64, 0x80 + c mod 64]"
      using assms by (auto simp: utf8_char_def)
    have 1: "2 \<le> c div 64" "c div 64 \<le> 31" using two by auto
    have 2: "c div 64 * 64 + c mod 64 = c" by simp
    have 3: "c mod 64 \<le> 63" by simp
    show ?thesis unfolding bs using 1 2 3 by (simp add: is_cont_def)
  next
    case three
    then have bs: "bs = [0xE0 + c div 4096, 0x80 + (c div 64) mod 64, 0x80 + c mod 64]"
      using assms by (auto simp: utf8_char_def is_surrogate_def)
    have 1: "c div 4096 \<le> 15" using three by auto
    have 2: "c div 4096 * 4096 + (c div 64) mod 64 * 64 + c mod 64 = c"
      by (rule split3)
    have 3: "c mod 64 \<le> 63" "(c div 64) mod 64 \<le> 63" by simp_all
    show ?thesis unfolding bs using 1 2 3 three by (simp add: is_cont_def Let_def)
  next
    case four
    then have ns: "\<not> is_surrogate c" by (auto simp: is_surrogate_def)
    with four have bs: "bs = [0xF0 + c div 262144, 0x80 + (c div 4096) mod 64,
             0x80 + (c div 64) mod 64, 0x80 + c mod 64]"
      using assms by (auto simp: utf8_char_def)
    have 1: "c div 262144 \<le> 4" using four by auto
    have 2: "c div 262144 * 262144 + (c div 4096) mod 64 * 4096 + (c div 64) mod 64 * 64
               + c mod 64 = c"
      by (rule split4)
    have 3: "c mod 64 \<le> 63" "(c div 64) mod 64 \<le> 63" "(c div 4096) mod 64 \<le> 63"
      by simp_all
    show ?thesis unfolding bs using 1 2 3 four by (simp add: is_cont_def Let_def)
  qed
qed

lemma utf8_encode_bytes: "utf8_encode s = Inr bs \<Longrightarrow> list_all (\<lambda>b. b < 256) bs"
  by (induction s arbitrary: bs) (auto split: sum.splits dest: utf8_char_bytes)

lemma utf8_decode_encode: "utf8_encode s = Inr bs \<Longrightarrow> utf8_decode bs = Some s"
proof (induction s arbitrary: bs)
  case Nil
  then show ?case by simp
next
  case (Cons c cs)
  then obtain b r where c: "utf8_char c = Inr b" and r: "utf8_encode cs = Inr r"
    and bs: "bs = b @ r"
    by (auto split: sum.splits)
  from Cons.IH[OF r] utf8_decode_char[OF c, of r] show ?case by (simp add: bs)
qed

lemma utf8_char_ok: "c < 0x110000 \<Longrightarrow> \<not> is_surrogate c \<Longrightarrow> \<exists>bs. utf8_char c = Inr bs"
  by (simp add: utf8_char_def)

lemma utf8_encode_ok: "encodable s \<Longrightarrow> \<exists>bs. utf8_encode s = Inr bs"
  unfolding encodable_def
proof (induction s)
  case Nil
  then show ?case by simp
next
  case (Cons c cs)
  then obtain b r where "utf8_char c = Inr b" "utf8_encode cs = Inr r"
    using utf8_char_ok[of c] by auto
  then show ?case by simp
qed

lemma utf8_encode_fails: "\<not> encodable s \<Longrightarrow> utf8_encode s = Inl UnicodeEncodeError"
  unfolding encodable_def
  by (induction s) (auto simp: utf8_char_def is_surrogate_def split: sum.splits)

lemma encodable_append: "encodable (a @ b) = (encodable a \<and> encodable b)"
  by (simp add: encodable_def)

lemma encodable_qr_text:
  "encodable (qr_text code description personalization) =
     (encodable code \<and> encodable description \<and> encodable personalization)"
  unfolding qr_text_def encodable_append
  by (simp add: encodable_def ascii_def nl_def o_acute_def is_surrogate_def)

lemma percent_decode_quote:
  assumes "quote s = Inr p"
  shows "percent_decode p = Some s"
proof -
  from assms obtain bs where bs: "utf8_encode s = Inr bs" and p: "p = quote_from_bytes bs"
    by (auto simp: quote_def split: sum.splits)
  have small: "list_all (\<lambda>b. b < 256) bs" using bs by (rule utf8_encode_bytes)
  have "utf8_encode p = Inr p"
    unfolding p using small by (intro utf8_encode_ascii quote_from_bytes_ascii)
  moreover have "unquote_to_bytes p = bs"
    unfolding p using small by (rule unquote_quote_from_bytes)
  ultimately show ?thesis
    using bs by (simp add: percent_decode_def utf8_decode_encode)
qed

text \<open>
  A text with a lone surrogate (or a number that is no code point) has no UTF-8 form:
  \<open>quote\<close> raises on it, and so does the formatter.
\<close>

lemma create_qr_content_unencodable:
  "\<not> (encodable code \<and> encodable description \<and> encodable personalization)
   \<Longrightarrow> create_qr_content code description personalization = Inl UnicodeEncodeError"
  using utf8_encode_fails[of "qr_text code description personalization"]
  by (simp add: create_qr_content_def quote_def encodable_qr_text)


text \<open>
  C1. For every code, description and personalization that are texts with a UTF-8 form
  (no lone surrogate), \<open>create_qr_content\<close> returns the four lines \<open>PROCHAP\<close>,
  \<open>Codigo: code\<close>, \<open>Descripcion: description\<close> and
  \<open>Personalizacion: personalization\<close> (each label with its accented o), followed by the line
  \<open>Compartir por WhatsApp: https://wa.me/?text=payload\<close>, where percent-decoding the
  payload gives back exactly those four lines. The result is a function of the three
  arguments alone.
\<close>

theorem create_qr_content_roundtrip:
  assumes "encodable code" and "encodable description" and "encodable personalization"
  shows "\<exists>payload.
           create_qr_content code description personalization =
             Inr (join_lines
                   [ascii ''PROCHAP'',
                    ascii ''C'' @ [o_acute] @ ascii ''digo: '' @ code,
                    ascii ''Descripci'' @ [o_acute] @ ascii ''n: '' @ description,
                    ascii ''Personalizaci'' @ [o_acute] @ ascii ''n: '' @ personalization,
                    ascii ''Compartir por WhatsApp: https://wa.me/?text='' @ payload])
           \<and> percent_decode payload =
               Some (join_lines
                   [ascii ''PROCHAP'',
                    ascii ''C'' @ [o_acute] @ ascii ''digo: '' @ code,
                    ascii ''Descripci'' @ [o_acute] @ ascii ''n: '' @ description,
                    ascii ''Personalizaci'' @ [o_acute] @ ascii ''n: '' @ personalization])"
proof -
  have "encodable (qr_text code description personalization)"
    using assms by (simp add: encodable_qr_text)
  then obtain p where p: "quote (qr_text code description personalization) = Inr p"
    using utf8_encode_ok by (fastforce simp: quote_def)
  have "percent_decode p = Some (qr_text code description personalization)"
    using p by (rule percent_decode_quote)
  with p show ?thesis
    by (auto simp: create_qr_content_def qr_text_def ascii_def)
qed

theorem create_qr_content_roundtrip_witness:
  "encodable (ascii ''A1'') \<and> encodable (ascii ''Box'') \<and> encodable []
   \<and> (\<exists>payload.
           create_qr_content (ascii ''A1'') (ascii ''Box'') [] =
             Inr (join_lines
                   [ascii ''PROCHAP'',
                    ascii ''C'' @ [o_acute] @ ascii ''digo: '' @ ascii ''A1'',
                    ascii ''Descripci'' @ [o_acute] @ ascii ''n: '' @ ascii ''Box'',
                    ascii ''Personalizaci'' @ [o_acute] @ ascii ''n: '' @ [],
                    ascii ''Compartir por WhatsApp: https://wa.me/?text='' @ payload])
           \<and> percent_decode payload =
               Some (join_lines
                   [ascii ''PROCHAP'',
                    ascii ''C'' @ [o_acute] @ ascii ''digo: '' @ ascii ''A1'',
                    ascii ''Descripci'' @ [o_acute] @ ascii ''n: '' @ ascii ''Box'',
                    ascii ''Personalizaci'' @ [o_acute] @ ascii ''n: '' @ []]))"
proof -
  have e: "encodable (ascii ''A1'')" "encodable (ascii ''Box'')" "encodable []"
    by (simp_all add: encodable_def ascii_def is_surrogate_def)
  from create_qr_content_roundtrip[OF e] e show ?thesis by blast
qed

section \<open>Properties of the record store\<close>

lemma create_qr_code_cases:
  "create_qr_code fault fecha c d p db =
     (if fault then Inr (False, db)
      else case db of
             None \<Rightarrow> Inr (False, db)
           | Some t \<Rightarrow>
               if max_rowid \<le> seq t then Inr (False, db)
               else Inr (True, Some \<lparr>rows = rows t @
                                   [\<lparr>qr_id = Suc (seq t), contenido = c, fecha_creacion = fecha,
                                     descripcion = d, personalizacion = p\<rparr>],
                                seq = Suc (seq t)\<rparr>))"
  by (simp add: create_qr_code_def sql_insert_def split: option.splits)

lemma get_all_qr_codes_cases:
  "get_all_qr_codes fault db =
     (if fault then Inr [] else case db of None \<Rightarrow> Inr [] | Some t \<Rightarrow> Inr (rows t))"
  by (simp add: get_all_qr_codes_def sql_select_all_def split: option.splits)

lemma delete_all_qr_codes_cases:
  "delete_all_qr_codes fault db =
     (if fault then Inr (False, db)
      else case db of None \<Rightarrow> Inr (False, db) | Some t \<Rightarrow> Inr (True, Some (t\<lparr>rows := []\<rparr>)))"
  by (simp add: delete_all_qr_codes_def sql_delete_all_def split: option.splits)

lemma initialize_database_cases:
  "initialize_database fault db =
     (if fault then Inl SqliteError
      else case db of None \<Rightarrow> Inr (Some \<lparr>rows = [], seq = 0\<rparr>) | Some t \<Rightarrow> Inr (Some t))"
  by (simp add: initialize_database_def sql_create_table_def split: option.splits)

lemmas store_cases =
  create_qr_code_cases get_all_qr_codes_cases delete_all_qr_codes_cases initialize_database_cases

lemma wf_apply: "wf_db db \<Longrightarrow> wf_db (apply_store_op x db)"
  by (cases x)
     (auto simp: wf_db_def store_cases sorted_wrt_append list_all_iff
           split: option.splits if_splits)

lemma wf_run: "wf_db db \<Longrightarrow> wf_db (run_store xs db)"
  by (induction xs arbitrary: db) (simp_all add: wf_apply)

lemma seq_apply: "seq_of db \<le> seq_of (apply_store_op x db)"
  by (cases x) (auto simp: seq_of_def store_cases split: option.splits if_splits)

lemma seq_run: "seq_of db \<le> seq_of (run_store xs db)"
proof (induction xs arbitrary: db)
  case Nil
  then show ?case by simp
next
  case (Cons x xs)
  have "seq_of db \<le> seq_of (apply_store_op x db)" by (rule seq_apply)
  also have "\<dots> \<le> seq_of (run_store xs (apply_store_op x db))" by (rule Cons.IH)
  finally show ?case by simp
qed

lemma assigned_by_le_seq:
  "i \<in> set (assigned_by x db) \<Longrightarrow> i \<le> seq_of (apply_store_op x db)"
  by (cases x) (auto simp: seq_of_def store_cases split: option.splits if_splits)

lemma assigned_le_seq: "i \<in> set (assigned xs db) \<Longrightarrow> i \<le> seq_of (run_store xs db)"
proof (induction xs arbitrary: db)
  case Nil
  then show ?case by simp
next
  case (Cons x xs)
  from Cons.prems consider "i \<in> set (assigned_by x db)"
    | "i \<in> set (assigned xs (apply_store_op x db))" by auto
  then show ?case
  proof cases
    case 1
    then have "i \<le> seq_of (apply_store_op x db)" by (rule assigned_by_le_seq)
    also have "\<dots> \<le> seq_of (run_store xs (apply_store_op x db))" by (rule seq_run)
    finally show ?thesis by simp
  next
    case 2
    then show ?thesis using Cons.IH by simp
  qed
qed

lemma list_sorted:
  "\<exists>rs. get_all_qr_codes fault (run_store ops None) = Inr rs \<and> sorted_wrt (<) (map qr_id rs)"
proof -
  have "wf_db (run_store ops None)" by (rule wf_run) (simp add: wf_db_def)
  then show ?thesis by (auto simp: get_all_qr_codes_cases wf_db_def split: option.splits)
qed

lemma create_appends:
  assumes "create_qr_code fault fecha c d p (run_store ops None) = Inr (True, db')"
  shows "\<exists>old new.
           get_all_qr_codes False (run_store ops None) = Inr old
           \<and> get_all_qr_codes False db' = Inr (old @ [new])
           \<and> contenido new = c \<and> fecha_creacion new = fecha
           \<and> descripcion new = d \<and> personalizacion new = p
           \<and> (\<forall>i \<in> set (assigned ops None). i < qr_id new)
           \<and> (\<forall>r \<in> set old. qr_id r < qr_id new)
           \<and> sorted_wrt (<) (map qr_id (old @ [new]))"
proof -
  define s where "s = run_store ops None"
  have wf: "wf_db s" unfolding s_def by (rule wf_run) (simp add: wf_db_def)
  from assms obtain t where t: "s = Some t" and nf: "\<not> fault" and room: "seq t < max_rowid"
    and db': "db' = Some \<lparr>rows = rows t @
                                   [\<lparr>qr_id = Suc (seq t), contenido = c, fecha_creacion = fecha,
                                     descripcion = d, personalizacion = p\<rparr>],
                                seq = Suc (seq t)\<rparr>"
    unfolding s_def[symmetric]
    by (auto simp: create_qr_code_cases split: if_splits option.splits)
  let ?new = "\<lparr>qr_id = Suc (seq t), contenido = c, fecha_creacion = fecha,
                                     descripcion = d, personalizacion = p\<rparr>"
  have a: "\<forall>i \<in> set (assigned ops None). i < qr_id ?new"
  proof
    fix i assume "i \<in> set (assigned ops None)"
    then have "i \<le> seq_of (run_store ops None)" by (rule assigned_le_seq)
    then show "i < qr_id ?new" using t by (simp add: s_def[symmetric] seq_of_def)
  qed
  have b: "\<forall>r \<in> set (rows t). qr_id r < qr_id ?new"
    using wf t by (auto simp: wf_db_def list_all_iff)
  have c: "sorted_wrt (<) (map qr_id (rows t @ [?new]))"
    using wf t b by (simp add: wf_db_def sorted_wrt_append)
  show ?thesis
    apply (rule exI[of _ "rows t"], rule exI[of _ ?new])
    using a b c t db' unfolding s_def[symmetric] by (simp add: get_all_qr_codes_cases)
qed

text \<open>
  C5. In every state the store can reach, listing returns the records in ascending order
  of identifier; and after a successful create the listing is the previous listing with
  the new record appended (so the order is the order of insertion), the new record
  carrying the values given and an identifier strictly greater than every identifier
  given out before, those of deleted records included.
\<close>

theorem create_then_list:
  "(\<forall>f. \<exists>rs. get_all_qr_codes f (run_store ops None) = Inr rs
            \<and> sorted_wrt (<) (map qr_id rs))
   \<and> (\<forall>db'. create_qr_code fault fecha c d p (run_store ops None) = Inr (True, db') \<longrightarrow>
         (\<exists>old new.
            get_all_qr_codes False (run_store ops None) = Inr old
            \<and> get_all_qr_codes False db' = Inr (old @ [new])
            \<and> contenido new = c \<and> fecha_creacion new = fecha
            \<and> descripcion new = d \<and> personalizacion new = p
            \<and> (\<forall>i \<in> set (assigned ops None). i < qr_id new)
            \<and> (\<forall>r \<in> set old. qr_id r < qr_id new)
            \<and> sorted_wrt (<) (map qr_id (old @ [new]))))"
  using list_sorted create_appends by blast

theorem create_then_list_witness:
  "create_qr_code False (ascii ''t2'') (ascii ''c2'') (ascii ''d2'') []
     (run_store [Initialize False, Create False (ascii ''t1'') (ascii ''c1'') (ascii ''d1'') [],
                 DeleteAll False] None)
     = Inr (True, Some \<lparr>rows = [\<lparr>qr_id = 2, contenido = ascii ''c2'',
                                    fecha_creacion = ascii ''t2'', descripcion = ascii ''d2'',
                                    personalizacion = []\<rparr>], seq = 2\<rparr>)
   \<and> (\<exists>new.
        get_all_qr_codes False
          (Some \<lparr>rows = [\<lparr>qr_id = 2, contenido = ascii ''c2'',
                                    fecha_creacion = ascii ''t2'', descripcion = ascii ''d2'',
                                    personalizacion = []\<rparr>], seq = 2\<rparr>) = Inr [new]
        \<and> (\<forall>i \<in> set (assigned [Initialize False,
                                  Create False (ascii ''t1'') (ascii ''c1'') (ascii ''d1'') [],
                                  DeleteAll False] None). i < qr_id new))"
proof -
  let ?ops = "[Initialize False, Create False (ascii ''t1'') (ascii ''c1'') (ascii ''d1'') [],
                 DeleteAll False]"
  let ?db = "Some \<lparr>rows = [\<lparr>qr_id = 2, contenido = ascii ''c2'',
                                    fecha_creacion = ascii ''t2'', descripcion = ascii ''d2'',
                                    personalizacion = []\<rparr>], seq = 2\<rparr>"
  have run: "run_store ?ops None = Some \<lparr>rows = [], seq = 1\<rparr>"
    by (simp add: store_cases max_rowid_def)
  have h: "create_qr_code False (ascii ''t2'') (ascii ''c2'') (ascii ''d2'') []
             (run_store ?ops None) = Inr (True, ?db)"
    unfolding run by (simp add: store_cases max_rowid_def)
  from create_then_list[of ?ops False "ascii ''t2''" "ascii ''c2''" "ascii ''d2''" "[]"] h
  obtain old new where
    1: "get_all_qr_codes False (run_store ?ops None) = Inr old"
    and 2: "get_all_qr_codes False ?db = Inr (old @ [new])"
    and 3: "\<forall>i \<in> set (assigned ?ops None). i < qr_id new"
    by blast
  from 1 have "old = []" unfolding run by (simp add: store_cases)
  with 2 3 h show ?thesis by auto
qed




text \<open>
  C7. Whatever the store holds, a delete-all that reports success leaves a store whose
  listing is empty; and delete-all reports success whenever the storage works and the
  table exists.
\<close>

theorem delete_all_then_list:
  "(\<not> fault \<and> db \<noteq> None \<longrightarrow> (\<exists>db'. delete_all_qr_codes fault db = Inr (True, db')))
   \<and> (\<forall>db'. delete_all_qr_codes fault db = Inr (True, db') \<longrightarrow>
         (\<forall>f. get_all_qr_codes f db' = Inr []))"
  by (auto simp: store_cases split: option.splits if_splits)

theorem delete_all_then_list_witness:
  "delete_all_qr_codes False
     (Some \<lparr>rows = [\<lparr>qr_id = 1, contenido = ascii ''c'', fecha_creacion = ascii ''t'',
                     descripcion = ascii ''d'', personalizacion = []\<rparr>], seq = 1\<rparr>)
     = Inr (True, Some \<lparr>rows = [], seq = 1\<rparr>)
   \<and> get_all_qr_codes False (Some \<lparr>rows = [], seq = 1\<rparr>) = Inr []"
proof -
  let ?db = "Some \<lparr>rows = [\<lparr>qr_id = 1, contenido = ascii ''c'', fecha_creacion = ascii ''t'',
                     descripcion = ascii ''d'', personalizacion = []\<rparr>], seq = 1\<rparr>"
  have h: "delete_all_qr_codes False ?db = Inr (True, Some \<lparr>rows = [], seq = 1\<rparr>)"
    by (simp add: delete_all_qr_codes_def sql_delete_all_def)
  from delete_all_then_list[of False ?db] h show ?thesis by blast
qed

section \<open>Properties of manual entry\<close>

text \<open>
  C8. In manual entry, when the code or the description is empty after trimming, the only
  thing that happens is the error dialog: the store, the display and the entry fields are
  as before, and the trace gains the dialog and nothing else, so that no store insert and
  no render is attempted.
\<close>

theorem validation_before_side_effects:
  assumes "strip (code_entry st) = [] \<or> strip (description_entry st) = []"
  shows "generate_and_save_qr e st
           = st\<lparr>trace := trace st @ [ShowError (ascii ''Error'') msg_missing]\<rparr>
         \<and> store (generate_and_save_qr e st) = store st
         \<and> attempts (generate_and_save_qr e st) = attempts st"
  using assms by (auto simp: generate_and_save_qr_def emit_def Let_def attempts_def)

theorem validation_before_side_effects_witness:
  "(strip (code_entry blank_window) = [] \<or> strip (description_entry blank_window) = [])
   \<and> store (generate_and_save_qr quiet blank_window) = Some \<lparr>rows = [], seq = 0\<rparr>
   \<and> trace (generate_and_save_qr quiet blank_window) = [ShowError (ascii ''Error'') msg_missing]"
proof -
  have h: "strip (code_entry blank_window) = [] \<or> strip (description_entry blank_window) = []"
    by (simp add: blank_window_def strip_def ascii_def is_space_def)
  from validation_before_side_effects[OF h, of quiet] h show ?thesis
    by (simp add: blank_window_def)
qed

section \<open>Properties of the export under a storage failure\<close>

text \<open>
  C10. When the storage fails, listing returns the empty list, the very value it returns
  on an empty table. An export attempted then shows the warning for an empty record set
  and writes no file: its trace is the one an export over an empty store leaves.
\<close>

theorem listing_hides_storage_failure:
  "get_all_qr_codes True db = Inr []
   \<and> get_all_qr_codes False (Some \<lparr>rows = [], seq = n\<rparr>) = Inr []
   \<and> (sqlite_fault e 0 \<longrightarrow>
        export_pdf e st = emit (ShowWarning (ascii ''Advertencia'') msg_nothing_to_export) st
        \<and> trace (export_pdf e st)
            = trace st @ [ShowWarning (ascii ''Advertencia'') msg_nothing_to_export]
        \<and> (\<forall>e'. \<not> sqlite_fault e' 0 \<longrightarrow>
              trace (export_pdf e' (st\<lparr>store := Some \<lparr>rows = [], seq = n\<rparr>\<rparr>))
                = trace (export_pdf e st)))"
  by (auto simp: export_pdf_def store_cases emit_def)

theorem listing_hides_storage_failure_witness:
  "sqlite_fault failing_store 0
   \<and> trace (export_pdf failing_store stocked_window)
       = [ShowWarning (ascii ''Advertencia'') msg_nothing_to_export]
   \<and> trace (export_pdf quiet (stocked_window\<lparr>store := Some \<lparr>rows = [], seq = 1\<rparr>\<rparr>))
       = trace (export_pdf failing_store stocked_window)"
proof -
  have h: "sqlite_fault failing_store 0" by (simp add: failing_store_def)
  have q: "\<not> sqlite_fault quiet 0" by (simp add: quiet_def)
  from listing_hides_storage_failure[of "store stocked_window" 1 failing_store stocked_window] h
  have t: "trace (export_pdf failing_store stocked_window)
             = trace stocked_window @ [ShowWarning (ascii ''Advertencia'') msg_nothing_to_export]"
    and a: "\<forall>e'. \<not> sqlite_fault e' 0 \<longrightarrow>
              trace (export_pdf e' (stocked_window\<lparr>store := Some \<lparr>rows = [], seq = 1\<rparr>\<rparr>))
                = trace (export_pdf failing_store stocked_window)"
    by blast+
  have "trace stocked_window = []" by (simp add: stocked_window_def blank_window_def)
  with t a q h show ?thesis by simp
qed

section \<open>Properties of the import\<close>

lemma db_create_cases:
  "db_create e k c d p st =
     (case create_qr_code (sqlite_fault e k) (clock e k) c d p (store st) of
        Inr (ok, db') \<Rightarrow> (Inr ok, st\<lparr>trace := trace st @ [Insert c d p], store := db'\<rparr>)
      | Inl err \<Rightarrow> (Inl err, st\<lparr>trace := trace st @ [Insert c d p]\<rparr>))"
  by (simp add: db_create_def emit_def Let_def split: sum.splits prod.splits)

lemma create_qr_code_never_raises: "create_qr_code fault fecha c d p db \<noteq> Inl err"
  by (simp add: create_qr_code_cases split: option.splits)








lemma required_columns: "has_required cc dc r \<Longrightarrow> has_columns cc dc r"
  by (auto simp: has_required_def has_columns_def split: option.splits)
















lemma row_progress:
  "\<not> (has_columns cc dc r \<and> \<not> has_required cc dc r) \<Longrightarrow>
   importar_datos_row e cc dc pc tot i r (st, n) = (st', n') \<Longrightarrow>
   \<exists>evs. trace st' = trace st @ evs @ [Progress (i + 1) tot]"
  unfolding importar_datos_row_def has_columns_def has_required_def
    count_error_def db_create_cases render_def update_progress_def emit_def show_qr_image_def
  by (auto simp: Let_def split: option.splits sum.splits prod.splits bool.splits if_splits)

text \<open>
  C4. The progress update sits after the handlers of the loop body, so that it runs for
  a row counted success or error (\<open>row_progress\<close>); the \<open>continue\<close> of a skipped row
  jumps over it. An import of one row whose description is blank reports one skipped row
  and issues no progress update at all.
\<close>

theorem skipped_row_no_progress:
  "trace (importar_datos quiet (Inr [sample_row ''A3'' '' '']) (ascii ''codigo'')
            (ascii ''descripcion'') None blank_window)
     = [ShowInfo (ascii ''Resultado de importaci'' @ [o_acute] @ ascii ''n'')
          (import_message \<lparr>success_count = 0, error_count = 0, skipped_count = 1\<rparr>)]"
  by (simp add: importar_datos_def importar_datos_row_def sample_row_def ascii_def strip_def
      is_space_def blank_window_def show_progress_def emit_def no_counts_def row_get_def)

section \<open>Properties of the export\<close>




lemma add_page_props:
  "length (add_page doc) = Suc (length doc) \<and> add_page doc \<noteq> []
   \<and> (\<forall>p < length doc. add_page doc ! p = doc ! p)"
  by (simp add: add_page_def nth_append)










lemma export_loop_append:
  "export_pdf_loop e tot i (xs @ ys) acc =
     export_pdf_loop e tot (i + length xs) ys (export_pdf_loop e tot i xs acc)"
  by (induction xs arbitrary: i acc) simp_all

lemma export_upto_Suc:
  assumes "k < length rs"
  shows "export_upto e rs st (Suc k) =
           export_pdf_record e (length rs) k (rs ! k) (export_upto e rs st k)"
proof -
  have "take (Suc k) rs = take k rs @ [rs ! k]"
    using assms by (simp add: take_Suc_conv_app_nth)
  then show ?thesis
    using assms by (simp add: export_upto_def export_loop_append min_def)
qed





end
